theory Spec2Isabelle
  imports Main "HOL-Library.Word"
begin

section \<open>C values: integers, strings, faults\<close>

text \<open>
  The server is C++ for Linux. A C \<open>int\<close> is a 32-bit word read as two's complement
  (\<open>sint\<close>, \<open>\<le>s\<close>); a C string is the list of its characters up to, and without, the
  terminating NUL.

  Where the source hands a null pointer to a library function, starts a read behind the
  end of a string or copies beyond a buffer, C++ gives the program no meaning from there
  on (on Linux a null pointer ends the process). An operation therefore ends in one of two
  ways: \<open>Done\<close> with the state it returns in, or \<open>Fault\<close> with the reason and the state
  reached up to that point (with the write to the socket that still follows an overrun of
  the response buffer). The shared record lives in a System V segment and outlives the
  process, so that state is what other processes find.
\<close>

type_synonym c_int = "32 word"

type_synonym c_short = "16 word"

type_synonym c_char = "8 word"

datatype fault =
    Null_deref        \<comment> \<open>a null pointer handed to strcmp, strcpy or atoi\<close>
  | Fclose_null       \<comment> \<open>fclose called on the null stream of a failed fopen\<close>
  | Read_past_end     \<comment> \<open>a string read started behind the terminating NUL of a message\<close>
  | Buffer_overflow   \<comment> \<open>the response printed or copied beyond the end of its buffer\<close>

datatype 'a outcome = Done 'a | Fault fault 'a

definition NUL :: char where
  "NUL = CHR 0x00"

definition LF :: char where
  "LF = CHR 0x0A"

definition cstr :: "string \<Rightarrow> string" where
  "cstr bytes = takeWhile (\<lambda>c. c \<noteq> NUL) bytes"

text \<open>
  \<open>strtok(s, d)\<close> with a single delimiter character: skip leading delimiters; no
  character left gives NULL; otherwise the token runs up to the next delimiter, which is
  overwritten, and the scan is saved behind it. The result is the token and the saved
  rest, so that \<open>strtok(NULL, d)\<close> is \<open>strtok\<close> on that rest.
\<close>

definition strtok :: "char \<Rightarrow> string \<Rightarrow> (string \<times> string) option" where
  "strtok d s =
     (let s1 = dropWhile (\<lambda>c. c = d) s
      in if s1 = [] then None
         else Some (takeWhile (\<lambda>c. c \<noteq> d) s1, drop 1 (dropWhile (\<lambda>c. c \<noteq> d) s1)))"

text \<open>
  \<open>atoi\<close> as glibc has it on a 64-bit Linux: \<open>(int) strtol(s, NULL, 10)\<close>. White space
  is skipped, one sign is read, then decimal digits; the value saturates at the bounds of
  \<open>long\<close> and the cast keeps its low 32 bits. No digit gives 0.
\<close>

definition isspace :: "char \<Rightarrow> bool" where
  "isspace c = (c \<in> {CHR '' '', CHR 0x09, CHR 0x0A, CHR 0x0B, CHR 0x0C, CHR 0x0D})"

definition isdigit :: "char \<Rightarrow> bool" where
  "isdigit c = (48 \<le> (of_char c :: nat) \<and> (of_char c :: nat) \<le> 57)"

fun digits_value :: "int \<Rightarrow> string \<Rightarrow> int" where
  "digits_value acc [] = acc"
| "digits_value acc (c # cs) =
     (if isdigit c then digits_value (10 * acc + (int (of_char c) - 48)) cs else acc)"

definition LONG_MAX :: int where
  "LONG_MAX = 2 ^ 63 - 1"

definition LONG_MIN :: int where
  "LONG_MIN = - (2 ^ 63)"

definition strtol :: "string \<Rightarrow> int" where
  "strtol s =
     (let s1 = dropWhile isspace s;
          v = (case s1 of
                 [] \<Rightarrow> 0
               | c # cs \<Rightarrow>
                   if c = CHR ''-'' then - digits_value 0 cs
                   else if c = CHR ''+'' then digits_value 0 cs
                   else digits_value 0 s1)
      in max LONG_MIN (min LONG_MAX v))"

definition atoi :: "string \<Rightarrow> c_int" where
  "atoi s = word_of_int (strtol s)"

text \<open>
  \<open>fgets(buffer, n, fd)\<close> on the unread rest of a stream: at most \<open>n - 1\<close> characters,
  ending behind the first newline. It returns the characters read and what is left.
\<close>

fun fgets :: "nat \<Rightarrow> string \<Rightarrow> string \<times> string" where
  "fgets n [] = ([], [])"
| "fgets n (c # cs) =
     (if n \<le> 1 then ([], c # cs)
      else if c = LF then ([c], cs)
      else (c # fst (fgets (n - 1) cs), snd (fgets (n - 1) cs)))"

section \<open>The shared record and the server's world\<close>

text \<open>\<open>serverData\<close> of httpserver.h, with its compiled-in defaults.\<close>

record serverData =
  backlog :: c_int
  max_clients :: c_int
  sensor_period :: c_int
  samples_moving_average_filter :: c_int
  client_count :: c_int

definition DEFAULT_BACKLOG :: c_int where
  "DEFAULT_BACKLOG = 2"

definition DEFAULT_MAX_CLIENTS :: c_int where
  "DEFAULT_MAX_CLIENTS = 1000"

definition DEFAULT_SENSOR_PERIOD :: c_int where
  "DEFAULT_SENSOR_PERIOD = 1000"

definition DEFAULT_SAMPLES_MOVING_AVERAGE_FILTER :: c_int where
  "DEFAULT_SAMPLES_MOVING_AVERAGE_FILTER = 5"

text \<open>
  What the server prints (the macros \<open>WARNING\<close> and \<open>INFO\<close> of tools.h wrap the text;
  the kind of line and its arguments are kept).
\<close>

datatype log_line =
    Warning_no_config_file string
  | Warning_unknown_key string
  | Warning_invalid_value string
  | Info_was_set string c_int

text \<open>
  Modelled from the spec: the class template \<open>SharedMemory\<close> (shared_memory.h) is
  not among the sources. The server holds one record in it; \<open>shm[0]\<close> is a view of
  that record, \<open>shm << data\<close> replaces it, and no locking is implicit in either.

  What a connection handler does to its collaborators, in the order it does it: an
  operation on a semaphore (\<open>Sem::op\<close>), a read-modify-write of the client counter in
  the shared record, a write to the client socket.
\<close>

datatype call =
    Sem_op c_int
  | Client_count_incr
  | Client_count_decr
  | Socket_write string

record world =
  shm :: serverData
  stdout :: "log_line list"
  calls :: "call list"

definition printf :: "log_line \<Rightarrow> world \<Rightarrow> world" where
  "printf l w = w\<lparr>stdout := stdout w @ [l]\<rparr>"

section \<open>Reloading the configuration\<close>

text \<open>
  The files the server can open: a path has the bytes of its file, or none when \<open>fopen\<close>
  fails.
\<close>

type_synonym filesystem = "string \<Rightarrow> string option"

text \<open>
  The last two statements of the loop body of \<open>update_configuration\<close>: the line printed
  for a recognised key whose new value differs from the current one.
\<close>

definition report :: "string \<Rightarrow> c_int \<Rightarrow> world \<Rightarrow> world" where
  "report key changed_value w =
     (if changed_value \<le>s 0 then printf (Warning_invalid_value key) w
      else printf (Info_was_set key changed_value) w)"

text \<open>
  One turn of the \<open>while\<close> loop of \<open>update_configuration\<close>, on the buffer \<open>fgets\<close>
  filled. \<open>continue\<close> ends the turn with \<open>Done\<close>. A line of separators only leaves
  \<open>key\<close> null and a recognised key without a value leaves \<open>value\<close> null: \<open>strcmp\<close>
  and \<open>atoi\<close> then fault.
\<close>

definition update_line :: "string \<Rightarrow> world \<Rightarrow> world outcome" where
  "update_line buffer0 w =
     (let buffer = takeWhile (\<lambda>c. c \<noteq> LF) (cstr buffer0)
      in if CHR ''='' \<notin> set buffer then Done w
         else
           (case strtok (CHR ''='') buffer of
              None \<Rightarrow> Fault Null_deref w
            | Some (key, saved) \<Rightarrow>
                (let value = map_option fst (strtok (CHR ''='') saved)
                 in if key = ''backlog'' then
                      (case value of
                         None \<Rightarrow> Fault Null_deref w
                       | Some v \<Rightarrow>
                           (let changed_value = (if atoi v \<noteq> 0 then atoi v else DEFAULT_BACKLOG)
                            in if changed_value = backlog (shm w) then Done w
                               else if 1 \<le>s changed_value
                               then Done (report key changed_value
                                      (w\<lparr>shm := (shm w)\<lparr>backlog := changed_value\<rparr>\<rparr>))
                               else Done (report key changed_value w)))
                    else if key = ''max_clients'' then
                      (case value of
                         None \<Rightarrow> Fault Null_deref w
                       | Some v \<Rightarrow>
                           (let changed_value = (if atoi v \<noteq> 0 then atoi v else DEFAULT_MAX_CLIENTS)
                            in if changed_value = max_clients (shm w) then Done w
                               else if 1 \<le>s changed_value
                               then Done (report key changed_value
                                      (w\<lparr>shm := (shm w)\<lparr>max_clients := changed_value\<rparr>\<rparr>))
                               else Done (report key changed_value w)))
                    else if key = ''sensor_period'' then
                      (case value of
                         None \<Rightarrow> Fault Null_deref w
                       | Some v \<Rightarrow>
                           (let changed_value = (if atoi v \<noteq> 0 then atoi v else DEFAULT_SENSOR_PERIOD)
                            in if changed_value = sensor_period (shm w) then Done w
                               else if 1 \<le>s changed_value
                               then Done (report key changed_value
                                      (w\<lparr>shm := (shm w)\<lparr>sensor_period := changed_value\<rparr>\<rparr>))
                               else Done (report key changed_value w)))
                    else if key = ''samples_moving_average_filter'' then
                      (case value of
                         None \<Rightarrow> Fault Null_deref w
                       | Some v \<Rightarrow>
                           (let changed_value =
                                  (if atoi v \<noteq> 0 then atoi v
                                   else DEFAULT_SAMPLES_MOVING_AVERAGE_FILTER)
                            in if changed_value = samples_moving_average_filter (shm w) then Done w
                               else if 1 \<le>s changed_value
                               then Done (report key changed_value
                                      (w\<lparr>shm := (shm w)\<lparr>samples_moving_average_filter :=
                                                         changed_value\<rparr>\<rparr>))
                               else Done (report key changed_value w)))
                    else Done (printf (Warning_unknown_key key) w))))"

text \<open>
  The loop \<open>while (fgets(buffer, sizeof(buffer), fd) != NULL)\<close> over the unread rest of
  the file, with \<open>char buffer[255]\<close>: it ends at the end of the file, or with the fault of
  a line.
\<close>

function update_lines :: "string \<Rightarrow> world \<Rightarrow> world outcome" where
  "update_lines stream w =
     (if stream = [] then Done w
      else
        (case update_line (fst (fgets 255 stream)) w of
           Fault f w' \<Rightarrow> Fault f w'
         | Done w' \<Rightarrow> update_lines (snd (fgets 255 stream)) w'))"
  by pat_completeness auto

lemma fgets_rest_shorter:
  "1 < n \<Longrightarrow> stream \<noteq> [] \<Longrightarrow> length (snd (fgets n stream)) < length stream"
proof (induction stream arbitrary: n)
  case Nil
  then show ?case by simp
next
  case (Cons c cs)
  show ?case
  proof (cases "c = LF \<or> cs = [] \<or> n - 1 \<le> 1")
    case True
    with Cons.prems show ?thesis by (cases cs) auto
  next
    case False
    then have "length (snd (fgets (n - 1) cs)) < length cs"
      using Cons.IH [of "n - 1"] by simp
    with False Cons.prems show ?thesis by simp
  qed
qed

termination update_lines
  by (relation "measure (\<lambda>(stream, w). length stream)") (simp_all add: fgets_rest_shorter)

declare update_lines.simps [simp del]

text \<open>
  \<open>HttpServer::update_configuration\<close>. When the configuration file cannot be opened the
  four settings take their defaults and the function returns.
\<close>

definition update_configuration :: "filesystem \<Rightarrow> string \<Rightarrow> world \<Rightarrow> world outcome" where
  "update_configuration fs config_file w =
     (case fs config_file of
        None \<Rightarrow>
          Done ((printf (Warning_no_config_file config_file) w)
                  \<lparr>shm := (shm w)
                     \<lparr>backlog := DEFAULT_BACKLOG,
                      max_clients := DEFAULT_MAX_CLIENTS,
                      sensor_period := DEFAULT_SENSOR_PERIOD,
                      samples_moving_average_filter := DEFAULT_SAMPLES_MOVING_AVERAGE_FILTER\<rparr>\<rparr>)
      | Some stream \<Rightarrow> update_lines stream w)"

section \<open>The HTTP server\<close>

text \<open>
  Modelled from the spec: the header http_types.h, which declares the request and the
  response and their enumerations, is not among the sources. The request has a method
  and a route; the response has a route (or literal body), a MIME type, a status code and
  a connection directive. \<open>Other_method\<close> stands for any value of the method that is
  neither GET nor POST (the request starts uninitialised). The sizes of the two \<open>route\<close>
  arrays are declared there as well; copies into them are taken to fit.
\<close>

datatype http_method = GET | POST | Other_method

datatype http_mime_type = HTML | FAVICON | JPG | JSON

datatype http_code = OK | NOT_FOUND

datatype http_conn = CLOSE

record HttpRequest =
  req_method :: http_method
  req_route :: string

record HttpResponse =
  route :: string
  mime_type :: http_mime_type
  code :: http_code
  conn :: http_conn

text \<open>
  What the server is given from outside: the files it can open, the text \<open>ctime\<close> gives
  for the clock (which may differ from one response to the next: it is asked by the number
  of calls the handler has made so far), and the four string tables of http_types.h.
\<close>

record env =
  files :: filesystem
  ctime :: "nat \<Rightarrow> string"
  http_methods :: "http_method \<Rightarrow> string"
  http_codes :: "http_code \<Rightarrow> string"
  http_mime_types :: "http_mime_type \<Rightarrow> string"
  http_conns :: "http_conn \<Rightarrow> string"

definition SERVER_ROOT :: string where
  "SERVER_ROOT = ''web''"

definition SERVER_NAME :: string where
  "SERVER_NAME = ''Cotti_server''"

definition RESPONSE_SIZE :: nat where
  "RESPONSE_SIZE = 100000"

text \<open>The conversions \<open>%d\<close> and \<open>%ld\<close> of \<open>sprintf\<close>.\<close>

definition digit :: "nat \<Rightarrow> char" where
  "digit n = ''0123456789'' ! n"

fun show_nat :: "nat \<Rightarrow> string" where
  "show_nat n = (if n < 10 then [digit n] else show_nat (n div 10) @ [digit (n mod 10)])"

declare show_nat.simps [simp del]

definition show_int :: "int \<Rightarrow> string" where
  "show_int i = (if i < 0 then CHR ''-'' # show_nat (nat (- i)) else show_nat (nat i))"

text \<open>\<open>HttpServer::not_found\<close>.\<close>

definition not_found :: HttpResponse where
  "not_found = \<lparr>route = ''/not_found.html'', mime_type = HTML, code = NOT_FOUND, conn = CLOSE\<rparr>"

text \<open>
  \<open>HttpServer::request\<close> once \<open>socket.read\<close> has returned a positive count, on the
  message read (as the C string in \<open>client_msg\<close>). It returns 0 on each path that
  returns. A message without a token leaves \<open>buffer\<close> null; a route is looked for at
  the fixed offset behind the method's name, which may lie behind the end of the message
  or be followed by no token.
\<close>

definition request :: "env \<Rightarrow> string \<Rightarrow> HttpRequest \<Rightarrow> HttpRequest outcome" where
  "request e client_msg req =
     (case strtok (CHR '' '') client_msg of
        None \<Rightarrow> Fault Null_deref req
      | Some (buffer, saved) \<Rightarrow>
          if buffer = http_methods e GET then
            (if length client_msg < length (http_methods e GET) + 1
             then Fault Read_past_end (req\<lparr>req_method := GET\<rparr>)
             else
               (case strtok (CHR '' '') (drop (length (http_methods e GET) + 1) client_msg) of
                  None \<Rightarrow> Fault Null_deref (req\<lparr>req_method := GET\<rparr>)
                | Some (r, saved') \<Rightarrow> Done (req\<lparr>req_method := GET, req_route := r\<rparr>)))
          else
            (case strtok (CHR '' '') buffer of
               None \<Rightarrow> Fault Null_deref req
             | Some (buffer', saved') \<Rightarrow>
                 if buffer' = http_methods e POST then
                   (if length client_msg < length (http_methods e POST) + 1
                    then Fault Read_past_end (req\<lparr>req_method := POST\<rparr>)
                    else
                      (case strtok (CHR '' '')
                              (drop (length (http_methods e POST) + 1) client_msg) of
                         None \<Rightarrow> Fault Null_deref (req\<lparr>req_method := POST\<rparr>)
                       | Some (r, saved'') \<Rightarrow> Done (req\<lparr>req_method := POST, req_route := r\<rparr>)))
                 else Done req))"

text \<open>
  The second half of \<open>HttpServer::response\<close>, from \<open>time(NULL)\<close> on: the header is
  printed into \<open>rta\<close>, \<open>bytes_read\<close> bytes of \<open>buffer\<close> are copied behind it and the
  whole is written to the socket in one call. Both arrays hold \<open>RESPONSE_SIZE\<close> bytes:
  a response longer than that overruns \<open>rta\<close>; the write is made all the same, and the
  turn ends in a fault with it.
\<close>

definition header :: "env \<Rightarrow> HttpResponse \<Rightarrow> nat \<Rightarrow> string \<Rightarrow> string" where
  "header e res bytes_read date =
     ''HTTP/1.1 '' @ http_codes e (code res) @ [LF] @
     ''Server: '' @ SERVER_NAME @ [LF] @
     ''Date: '' @ date @
     ''Content-Length: '' @ show_nat bytes_read @ [LF] @
     ''Content-Type: '' @ http_mime_types e (mime_type res) @ [LF] @
     ''Content-Language: en'' @ [LF] @
     ''Connection: '' @ http_conns e (conn res) @ [LF, LF]"

definition response_send :: "env \<Rightarrow> HttpResponse \<Rightarrow> string \<Rightarrow> nat \<Rightarrow> world \<Rightarrow> world outcome" where
  "response_send e res buffer bytes_read w =
     (let rta = header e res bytes_read (ctime e (length (calls w)));
          header_size = length rta
      in if RESPONSE_SIZE \<le> header_size \<or> RESPONSE_SIZE < header_size + bytes_read
         then Fault Buffer_overflow
                (w\<lparr>calls := calls w @ [Socket_write (rta @ take bytes_read buffer)]\<rparr>)
         else Done (w\<lparr>calls := calls w @ [Socket_write (rta @ take bytes_read buffer)]\<rparr>))"

text \<open>
  \<open>HttpServer::response\<close>. A route that starts with a slash names a file under
  \<open>SERVER_ROOT\<close>. When \<open>fopen\<close> fails, \<open>res\<close> becomes the 404 response, \<open>bytes_read\<close>
  is never assigned, and \<open>fclose(fd)\<close> is called with the null stream. When \<open>fread\<close>
  reads no byte, \<open>res\<close> becomes the 404 response and \<open>bytes_read\<close> is 0; the file of the
  404 response is not read in either case. Any other route is itself the body.
\<close>

definition response :: "env \<Rightarrow> HttpResponse \<Rightarrow> world \<Rightarrow> world outcome" where
  "response e res w =
     (if route res \<noteq> [] \<and> hd (route res) = CHR ''/'' then
        (case files e (SERVER_ROOT @ route res) of
           None \<Rightarrow> Fault Fclose_null w
         | Some bytes \<Rightarrow>
             (let buffer = take RESPONSE_SIZE bytes;
                  bytes_read = length buffer
              in if bytes_read = 0 then response_send e not_found buffer bytes_read w
                 else response_send e (res\<lparr>route := SERVER_ROOT @ route res\<rparr>) buffer bytes_read w))
      else response_send e res (route res) (length (route res)) w)"

text \<open>The two read-modify-writes of the client counter, \<open>client_count++\<close> and \<open>client_count--\<close>.\<close>

definition client_count_incr :: "world \<Rightarrow> world" where
  "client_count_incr w =
     w\<lparr>shm := (shm w)\<lparr>client_count := client_count (shm w) + 1\<rparr>,
       calls := calls w @ [Client_count_incr]\<rparr>"

definition client_count_decr :: "world \<Rightarrow> world" where
  "client_count_decr w =
     w\<lparr>shm := (shm w)\<lparr>client_count := client_count (shm w) - 1\<rparr>,
       calls := calls w @ [Client_count_decr]\<rparr>"

text \<open>The body that \<open>sprintf\<close> builds for \<open>GET /update\<close>.\<close>

definition update_json :: "serverData \<Rightarrow> string" where
  \<open>update_json d =
     ''{"backlog": '' @ show_int (sint (backlog d)) @
     '',"max_clients": '' @ show_int (sint (max_clients d)) @
     '',"sensor_period": '' @ show_int (sint (sensor_period d)) @
     '',"samples_moving_average_filter": '' @
        show_int (sint (samples_moving_average_filter d)) @
     '',"clients": '' @ show_int (sint (client_count d)) @ ''}''\<close>

text \<open>
  One turn of the \<open>while\<close> loop of \<open>HttpServer::on_accept\<close>, once \<open>request\<close> has
  returned 0: the route table, then \<open>response\<close>; \<open>POST /dc\<close> goes on to the next turn
  (\<open>continue\<close>) without calling \<open>response\<close>.
\<close>

definition on_accept_turn :: "env \<Rightarrow> HttpRequest \<Rightarrow> world \<Rightarrow> world outcome" where
  "on_accept_turn e req w =
     (if req_method req = GET then
        (if req_route req = ''/'' then
           response e (not_found\<lparr>route := ''/index.html'', mime_type := HTML, code := OK,
                                   conn := CLOSE\<rparr>)
             (client_count_incr w)
         else if req_route req = ''/images/favicon.ico'' then
           response e (not_found\<lparr>route := req_route req, mime_type := FAVICON, code := OK,
                                   conn := CLOSE\<rparr>) w
         else if req_route req = ''/images/404.jpg'' then
           response e (not_found\<lparr>route := req_route req, mime_type := JPG, code := OK,
                                   conn := CLOSE\<rparr>) w
         else if req_route req = ''/update'' then
           response e (not_found\<lparr>route := update_json (shm w), mime_type := JSON, code := OK,
                                   conn := CLOSE\<rparr>) w
         else response e not_found w)
      else if req_method req = POST then
        (if req_route req = ''/dc'' then
           (if 0 <s client_count (shm w) then Done (client_count_decr w) else Done w)
         else response e not_found w)
      else response e not_found w)"

text \<open>
  \<open>HttpServer::on_accept\<close> on the messages the socket delivers before a read fails or
  the peer closes: the loop ends when \<open>request\<close> returns -1. The request object lives
  across the turns, so a message with an unknown method is served as the request before
  it; \<open>req\<close> is what the object holds on entry.
\<close>

fun on_accept :: "env \<Rightarrow> string list \<Rightarrow> HttpRequest \<Rightarrow> world \<Rightarrow> world outcome" where
  "on_accept e [] req w = Done w"
| "on_accept e (client_msg # socket) req w =
     (case request e client_msg req of
        Fault f req' \<Rightarrow> Fault f w
      | Done req' \<Rightarrow>
          (case on_accept_turn e req' w of
             Fault f w' \<Rightarrow> Fault f w'
           | Done w' \<Rightarrow> on_accept e socket req' w'))"

section \<open>Semaphores and message queues\<close>

text \<open>
  \<open>Sem\<close> and \<open>MsgQueue\<close> are handles on System V objects, which live in the kernel.
  The kernel is kept as far as the constructors and destructors ask it: \<open>ftok\<close> derives
  a key from a path and an id (-1 when it fails); a key names at most one semaphore set
  and at most one queue; a semaphore set has the value of its semaphore 0. Keys are those
  \<open>ftok\<close> derives; access rights (the mode 0666) are not kept, and neither are the
  messages of a queue.
\<close>

type_synonym key_t = c_int

datatype ipc_flag = IPC_CREAT | IPC_EXCL

record kernel =
  ftok :: "string \<Rightarrow> c_int \<Rightarrow> key_t"
  sem_of_key :: "key_t \<Rightarrow> nat option"
  semval :: "nat \<Rightarrow> nat option"
  msq_of_key :: "key_t \<Rightarrow> nat option"
  next_id :: nat

definition SEMVMX :: c_int where
  "SEMVMX = 32767"

text \<open>
  \<open>semget(key, nsems, flags)\<close> and \<open>msgget(key, flags)\<close>: the identifier, or none for
  the result -1. With \<open>IPC_CREAT | IPC_EXCL\<close> an existing object is an error (EEXIST);
  without \<open>IPC_CREAT\<close> a missing one is (ENOENT). A new semaphore starts at 0.
\<close>

definition semget :: "key_t \<Rightarrow> nat \<Rightarrow> ipc_flag set \<Rightarrow> kernel \<Rightarrow> nat option \<times> kernel" where
  "semget key nsems flags K =
     (case sem_of_key K key of
        Some sid \<Rightarrow>
          if IPC_CREAT \<in> flags \<and> IPC_EXCL \<in> flags then (None, K) else (Some sid, K)
      | None \<Rightarrow>
          if IPC_CREAT \<in> flags \<and> 0 < nsems then
            (Some (next_id K),
             K\<lparr>sem_of_key := (sem_of_key K)(key \<mapsto> next_id K),
               semval := (semval K)(next_id K \<mapsto> 0),
               next_id := next_id K + 1\<rparr>)
          else (None, K))"

definition msgget :: "key_t \<Rightarrow> ipc_flag set \<Rightarrow> kernel \<Rightarrow> nat option \<times> kernel" where
  "msgget key flags K =
     (case msq_of_key K key of
        Some qid \<Rightarrow>
          if IPC_CREAT \<in> flags \<and> IPC_EXCL \<in> flags then (None, K) else (Some qid, K)
      | None \<Rightarrow>
          if IPC_CREAT \<in> flags then
            (Some (next_id K),
             K\<lparr>msq_of_key := (msq_of_key K)(key \<mapsto> next_id K), next_id := next_id K + 1\<rparr>)
          else (None, K))"

text \<open>\<open>semctl\<close> with SETVAL, GETVAL and IPC_RMID, and \<open>msgctl\<close> with IPC_RMID.\<close>

definition semctl_SETVAL :: "nat \<Rightarrow> c_int \<Rightarrow> kernel \<Rightarrow> c_int \<times> kernel" where
  "semctl_SETVAL sid v K =
     (if semval K sid \<noteq> None \<and> 0 \<le>s v \<and> v \<le>s SEMVMX
      then (0, K\<lparr>semval := (semval K)(sid \<mapsto> unat v)\<rparr>)
      else (- 1, K))"

definition semctl_GETVAL :: "nat \<Rightarrow> kernel \<Rightarrow> c_int" where
  "semctl_GETVAL sid K = (case semval K sid of None \<Rightarrow> - 1 | Some v \<Rightarrow> of_nat v)"

definition semctl_IPC_RMID :: "nat \<Rightarrow> kernel \<Rightarrow> kernel" where
  "semctl_IPC_RMID sid K =
     K\<lparr>sem_of_key := (\<lambda>key. if sem_of_key K key = Some sid then None else sem_of_key K key),
       semval := (semval K)(sid := None)\<rparr>"

definition msgctl_IPC_RMID :: "nat \<Rightarrow> kernel \<Rightarrow> kernel" where
  "msgctl_IPC_RMID qid K =
     K\<lparr>msq_of_key := (\<lambda>key. if msq_of_key K key = Some qid then None else msq_of_key K key)\<rparr>"

text \<open>
  \<open>semop(semid, sops, 1)\<close> with one operation, on a set of one semaphore, as semop(2)
  states it. An operation above 0 is added to the value, unless the sum would exceed
  \<open>SEMVMX\<close> (ERANGE). An operation of 0 goes through when the value is 0. An operation
  below 0 goes through when the value is at least its absolute value, which is then
  subtracted. A call that cannot go through fails with \<open>IPC_NOWAIT\<close> and sleeps without
  it: \<open>Blocks\<close>. The kernel carries a sleeping call out once the value allows it, which
  is the same call made in that later state. A signal that interrupts a sleeping call and
  the removal of the set under it are left out.
\<close>

datatype sem_flag = IPC_NOWAIT | SEM_UNDO

record sembuf =
  sem_num :: nat
  sem_op :: c_short
  sem_flg :: "sem_flag set"

datatype 'r syscall = Returns 'r kernel | Blocks

definition semop :: "nat \<Rightarrow> sembuf \<Rightarrow> kernel \<Rightarrow> c_int syscall" where
  "semop sid sop K =
     (case semval K sid of
        None \<Rightarrow> Returns (- 1) K
      | Some v \<Rightarrow>
          if sem_num sop \<noteq> 0 then Returns (- 1) K
          else if 0 <s sem_op sop then
            (if unat SEMVMX < v + nat (sint (sem_op sop)) then Returns (- 1) K
             else Returns 0 (K\<lparr>semval := (semval K)(sid \<mapsto> v + nat (sint (sem_op sop)))\<rparr>))
          else if sem_op sop = 0 then
            (if v = 0 then Returns 0 K
             else if IPC_NOWAIT \<in> sem_flg sop then Returns (- 1) K
             else Blocks)
          else
            (if nat (- sint (sem_op sop)) \<le> v
             then Returns 0 (K\<lparr>semval := (semval K)(sid \<mapsto> v - nat (- sint (sem_op sop)))\<rparr>)
             else if IPC_NOWAIT \<in> sem_flg sop then Returns (- 1) K
             else Blocks))"

text \<open>
  The class \<open>Sem\<close>: its constructor, which throws \<open>std::runtime_error\<close> with one of
  four messages, \<open>set\<close>, \<open>get\<close>, \<open>op\<close>, \<open>exists\<close> and the destructor. \<open>set\<close>,
  \<open>get\<close> and \<open>op\<close> return \<open>char\<close>: the low 8 bits of what the kernel returns. Its declaration
  (sem.h) is not among the sources; the two fields are those the member functions of
  sem.cpp read and write. The destructor is given the thread that runs it, as the one of
  \<open>MsgQueue\<close> is, and does not ask for it.
\<close>

record Sem =
  semid :: nat
  creator :: bool

definition Sem_set :: "Sem \<Rightarrow> c_int \<Rightarrow> kernel \<Rightarrow> c_char \<times> kernel" where
  "Sem_set s v K = (case semctl_SETVAL (semid s) v K of (r, K') \<Rightarrow> (scast r, K'))"

definition Sem_get :: "Sem \<Rightarrow> kernel \<Rightarrow> c_char" where
  "Sem_get s K = scast (semctl_GETVAL (semid s) K)"

definition Sem_new :: "string \<Rightarrow> c_int \<Rightarrow> bool \<Rightarrow> kernel \<Rightarrow> (string + Sem) \<times> kernel" where
  "Sem_new path ident create K =
     (let key = ftok K path ident
      in if key = - 1 then (Inl ''Ftok'', K)
         else if create then
           (case semget key 1 {IPC_CREAT, IPC_EXCL} K of
              (None, K') \<Rightarrow> (Inl ''Create'', K')
            | (Some sid, K') \<Rightarrow>
                (case Sem_set \<lparr>semid = sid, creator = create\<rparr> 1 K' of
                   (r, K'') \<Rightarrow>
                     if r \<noteq> 0 then (Inl ''Set_value'', K'')
                     else (Inr \<lparr>semid = sid, creator = create\<rparr>, K'')))
         else
           (case semget key 0 {} K of
              (None, K') \<Rightarrow> (Inl ''Connect'', K')
            | (Some sid, K') \<Rightarrow> (Inr \<lparr>semid = sid, creator = create\<rparr>, K')))"

text \<open>
  \<open>Sem::op\<close> (\<open>apply\<close> in the specification): the \<open>int\<close> argument is stored in the
  \<open>short\<close> field \<open>sem_op\<close>, which keeps its low 16 bits, and handed to \<open>semop\<close>
  with no flag.
\<close>

definition Sem_apply :: "Sem \<Rightarrow> c_int \<Rightarrow> kernel \<Rightarrow> c_char syscall" where
  "Sem_apply s op K =
     (case semop (semid s) \<lparr>sem_num = 0, sem_op = scast op, sem_flg = {}\<rparr> K of
        Returns r K' \<Rightarrow> Returns (scast r) K'
      | Blocks \<Rightarrow> Blocks)"

definition Sem_destroy :: "Sem \<Rightarrow> nat \<Rightarrow> kernel \<Rightarrow> kernel" where
  "Sem_destroy s tid K = (if creator s then semctl_IPC_RMID (semid s) K else K)"

definition Sem_exists :: "string \<Rightarrow> c_int \<Rightarrow> kernel \<Rightarrow> bool" where
  "Sem_exists path ident K =
     (let key = ftok K path ident
      in if key = - 1 then False
         else (case fst (semget key 0 {} K) of None \<Rightarrow> False | Some sid \<Rightarrow> True))"

text \<open>
  The class template \<open>MsgQueue\<close>: constructor, destructor and \<open>exists\<close>. The
  constructor records \<open>gettid()\<close>, the thread that runs it, and the destructor compares
  it with the thread that runs the destructor.
\<close>

record MsgQueue =
  msg_id :: nat
  msq_creator :: bool
  pid :: nat

definition MsgQueue_new ::
  "string \<Rightarrow> c_int \<Rightarrow> bool \<Rightarrow> nat \<Rightarrow> kernel \<Rightarrow> (string + MsgQueue) \<times> kernel" where
  "MsgQueue_new path ident create tid K =
     (let key = ftok K path ident
      in if key = - 1 then (Inl ''ftok'', K)
         else if create then
           (case msgget key {IPC_CREAT, IPC_EXCL} K of
              (None, K') \<Rightarrow> (Inl ''msgget'', K')
            | (Some qid, K') \<Rightarrow> (Inr \<lparr>msg_id = qid, msq_creator = create, pid = tid\<rparr>, K'))
         else
           (case msgget key {} K of
              (None, K') \<Rightarrow> (Inl ''msgget'', K')
            | (Some qid, K') \<Rightarrow> (Inr \<lparr>msg_id = qid, msq_creator = create, pid = tid\<rparr>, K')))"

definition MsgQueue_destroy :: "MsgQueue \<Rightarrow> nat \<Rightarrow> kernel \<Rightarrow> kernel" where
  "MsgQueue_destroy q tid K =
     (if msq_creator q \<and> pid q = tid then msgctl_IPC_RMID (msg_id q) K else K)"

definition MsgQueue_exists :: "string \<Rightarrow> c_int \<Rightarrow> kernel \<Rightarrow> bool" where
  "MsgQueue_exists path ident K =
     (let key = ftok K path ident
      in if key = - 1 then False
         else (case fst (msgget key {} K) of None \<Rightarrow> False | Some qid \<Rightarrow> True))"

section \<open>Vocabulary of the properties\<close>

text \<open>The state an operation ends in, returned or faulted.\<close>

fun state_of :: "'a outcome \<Rightarrow> 'a" where
  "state_of (Done s) = s"
| "state_of (Fault f s) = s"

subsection \<open>Configuration lines\<close>

text \<open>
  The four keys \<open>update_configuration\<close> recognises, each with its text, its default and
  its field of the shared record.
\<close>

datatype setting = Backlog | Max_clients | Sensor_period | Samples_moving_average_filter

fun key_of :: "setting \<Rightarrow> string" where
  "key_of Backlog = ''backlog''"
| "key_of Max_clients = ''max_clients''"
| "key_of Sensor_period = ''sensor_period''"
| "key_of Samples_moving_average_filter = ''samples_moving_average_filter''"

fun default_of :: "setting \<Rightarrow> c_int" where
  "default_of Backlog = DEFAULT_BACKLOG"
| "default_of Max_clients = DEFAULT_MAX_CLIENTS"
| "default_of Sensor_period = DEFAULT_SENSOR_PERIOD"
| "default_of Samples_moving_average_filter = DEFAULT_SAMPLES_MOVING_AVERAGE_FILTER"

fun setting_of :: "setting \<Rightarrow> serverData \<Rightarrow> c_int" where
  "setting_of Backlog d = backlog d"
| "setting_of Max_clients d = max_clients d"
| "setting_of Sensor_period d = sensor_period d"
| "setting_of Samples_moving_average_filter d = samples_moving_average_filter d"

fun with_setting :: "setting \<Rightarrow> c_int \<Rightarrow> serverData \<Rightarrow> serverData" where
  "with_setting Backlog x d = d\<lparr>backlog := x\<rparr>"
| "with_setting Max_clients x d = d\<lparr>max_clients := x\<rparr>"
| "with_setting Sensor_period x d = d\<lparr>sensor_period := x\<rparr>"
| "with_setting Samples_moving_average_filter x d = d\<lparr>samples_moving_average_filter := x\<rparr>"

text \<open>
  The value a line resolves to, \<open>(atoi(value) != 0) ? atoi(value) : DEFAULT\<close>, as the
  four branches compute it.
\<close>

definition resolved :: "setting \<Rightarrow> string \<Rightarrow> c_int" where
  "resolved k v = (if atoi v \<noteq> 0 then atoi v else default_of k)"

text \<open>
  One branch of the loop body, for any of the four keys: what the four copies in
  \<open>update_line\<close> have in common.
\<close>

definition setting_branch :: "setting \<Rightarrow> string \<Rightarrow> string option \<Rightarrow> world \<Rightarrow> world outcome" where
  "setting_branch k key val w =
     (case val of
        None \<Rightarrow> Fault Null_deref w
      | Some v \<Rightarrow>
          if resolved k v = setting_of k (shm w) then Done w
          else if 1 \<le>s resolved k v
          then Done (report key (resolved k v) (w\<lparr>shm := with_setting k (resolved k v) (shm w)\<rparr>))
          else Done (report key (resolved k v) w))"

text \<open>
  A line \<open>key=value\<close> as the configuration file has it: the value is not empty and has
  no separator, newline or NUL, and the line fits the buffer of 255 characters.
\<close>

definition value_text :: "string \<Rightarrow> bool" where
  "value_text v = (v \<noteq> [] \<and> CHR ''='' \<notin> set v \<and> LF \<notin> set v \<and> NUL \<notin> set v)"

definition short_line :: "setting \<Rightarrow> string \<Rightarrow> bool" where
  "short_line k v = (length (key_of k) + length v + 2 < 255)"

text \<open>
  The settings of the shared record are never negative: the constructor of
  \<open>HttpServer\<close> writes zeros, and the server only stores values from 1 on.
\<close>

definition zeroed :: serverData where
  "zeroed =
     \<lparr>backlog = 0, max_clients = 0, sensor_period = 0, samples_moving_average_filter = 0,
      client_count = 0\<rparr>"

definition settings_initialised :: "serverData \<Rightarrow> bool" where
  "settings_initialised d =
     (0 \<le>s backlog d \<and> 0 \<le>s max_clients d \<and> 0 \<le>s sensor_period d \<and>
      0 \<le>s samples_moving_average_filter d)"

text \<open>Worlds and files of the examples.\<close>

definition world_3 :: world where
  "world_3 =
     \<lparr>shm = \<lparr>backlog = 3, max_clients = 10, sensor_period = 1000,
             samples_moving_average_filter = 5, client_count = 2\<rparr>,
      stdout = [], calls = []\<rparr>"


definition no_files :: filesystem where
  "no_files path = None"

subsection \<open>Calls of a connection handler\<close>

fun is_Sem_op :: "call \<Rightarrow> bool" where
  "is_Sem_op (Sem_op d) = True"
| "is_Sem_op c = False"

fun is_Socket_write :: "call \<Rightarrow> bool" where
  "is_Socket_write (Socket_write bytes) = True"
| "is_Socket_write c = False"

text \<open>
  The discipline the specification asks of a handler, on the list of its calls: a
  read-modify-write of the client counter happens only while the semaphore is held, that
  is after an acquire \<open>Sem::op(-1)\<close> not yet followed by a release \<open>Sem::op(+1)\<close>,
  and a release follows it. \<open>held\<close> tells whether the semaphore is held on entry.
\<close>

fun bracketed :: "bool \<Rightarrow> call list \<Rightarrow> bool" where
  "bracketed held [] = True"
| "bracketed held (Sem_op d # cs) =
     bracketed (if d = - 1 then True else if d = 1 then False else held) cs"
| "bracketed held (Client_count_incr # cs) = (held \<and> Sem_op 1 \<in> set cs \<and> bracketed held cs)"
| "bracketed held (Client_count_decr # cs) = (held \<and> Sem_op 1 \<in> set cs \<and> bracketed held cs)"
| "bracketed held (Socket_write bytes # cs) = bracketed held cs"

text \<open>
  An environment for the examples: the document root holds a page, the page of the 404
  response and an empty icon; the picture of the 404 page is missing.
\<close>

definition demo_files :: filesystem where
  "demo_files path =
     (if path = ''web/index.html'' then Some ''<h1>hi</h1>''
      else if path = ''web/not_found.html'' then Some ''gone''
      else if path = ''web/images/favicon.ico'' then Some []
      else None)"

fun demo_methods :: "http_method \<Rightarrow> string" where
  "demo_methods GET = ''GET''"
| "demo_methods POST = ''POST''"
| "demo_methods Other_method = []"

fun demo_codes :: "http_code \<Rightarrow> string" where
  "demo_codes OK = ''200 OK''"
| "demo_codes NOT_FOUND = ''404 Not Found''"

fun demo_mime_types :: "http_mime_type \<Rightarrow> string" where
  "demo_mime_types HTML = ''text/html''"
| "demo_mime_types FAVICON = ''image/x-icon''"
| "demo_mime_types JPG = ''image/jpeg''"
| "demo_mime_types JSON = ''application/json''"

fun demo_conns :: "http_conn \<Rightarrow> string" where
  "demo_conns CLOSE = ''close''"

definition demo_ctime :: "nat \<Rightarrow> string" where
  "demo_ctime n = ''Thu Jan  1 00:00:00 1970'' @ [LF]"

definition demo_env :: env where
  "demo_env =
     \<lparr>files = demo_files, ctime = demo_ctime, http_methods = demo_methods,
      http_codes = demo_codes, http_mime_types = demo_mime_types, http_conns = demo_conns\<rparr>"

definition fresh_request :: HttpRequest where
  "fresh_request = \<lparr>req_method = Other_method, req_route = []\<rparr>"

definition world_clients :: "c_int \<Rightarrow> world" where
  "world_clients n =
     \<lparr>shm = \<lparr>backlog = 5, max_clients = 10, sensor_period = 1000,
             samples_moving_average_filter = 5, client_count = n\<rparr>,
      stdout = [], calls = []\<rparr>"

subsection \<open>Kernels of the examples\<close>

definition demo_ftok :: "string \<Rightarrow> c_int \<Rightarrow> key_t" where
  "demo_ftok path ident = (if path = ''.'' then 1000 + ident else - 1)"

definition empty_kernel :: kernel where
  "empty_kernel =
     \<lparr>ftok = demo_ftok, sem_of_key = Map.empty, semval = Map.empty, msq_of_key = Map.empty,
      next_id = 0\<rparr>"

definition kernel_with_sem :: kernel where
  "kernel_with_sem = snd (Sem_new ''.'' 123 True empty_kernel)"

definition kernel_with_msq :: kernel where
  "kernel_with_msq = snd (MsgQueue_new ''.'' 123 True 100 empty_kernel)"

subsection \<open>Sequences of semaphore operations\<close>

text \<open>
  The calls of \<open>Sem::op\<close> that any processes make on one semaphore, one after the other.
  A call that blocks changes nothing while it sleeps; when the kernel carries it out later,
  that is the call made at that place of the sequence.
\<close>

fun Sem_applies :: "Sem \<Rightarrow> c_int list \<Rightarrow> kernel \<Rightarrow> kernel" where
  "Sem_applies s [] K = K"
| "Sem_applies s (op # ops) K =
     (case Sem_apply s op K of
        Returns r K' \<Rightarrow> Sem_applies s ops K'
      | Blocks \<Rightarrow> Sem_applies s ops K)"

text \<open>The semaphore exists and its value lies between 0 and \<open>SEMVMX\<close>.\<close>

definition semval_in_range :: "Sem \<Rightarrow> kernel \<Rightarrow> bool" where
  "semval_in_range s K = (case semval K (semid s) of None \<Rightarrow> False | Some v \<Rightarrow> v \<le> 32767)"

section \<open>Properties of the configuration reload\<close>

subsection \<open>Tokens and lines\<close>

lemma cstr_id: "NUL \<notin> set s \<Longrightarrow> cstr s = s"
  by (auto simp: cstr_def)

lemma takeWhile_upto: "d \<notin> set xs \<Longrightarrow> takeWhile (\<lambda>c. c \<noteq> d) (xs @ d # r) = xs"
  by (induction xs) auto

lemma dropWhile_upto: "d \<notin> set xs \<Longrightarrow> dropWhile (\<lambda>c. c \<noteq> d) (xs @ d # r) = d # r"
  by (induction xs) auto

lemma takeWhile_all: "d \<notin> set xs \<Longrightarrow> takeWhile (\<lambda>c. c \<noteq> d) xs = xs"
  by (induction xs) auto

lemma dropWhile_all: "d \<notin> set xs \<Longrightarrow> dropWhile (\<lambda>c. c \<noteq> d) xs = []"
  by (induction xs) auto

lemma dropWhile_none: "xs \<noteq> [] \<Longrightarrow> d \<notin> set xs \<Longrightarrow> dropWhile (\<lambda>c. c = d) (xs @ r) = xs @ r"
  by (cases xs) auto

lemma strtok_first: "key \<noteq> [] \<Longrightarrow> d \<notin> set key \<Longrightarrow> strtok d (key @ d # rest) = Some (key, rest)"
  by (simp add: strtok_def dropWhile_none takeWhile_upto dropWhile_upto)

lemma strtok_whole: "v \<noteq> [] \<Longrightarrow> d \<notin> set v \<Longrightarrow> strtok d v = Some (v, [])"
  using dropWhile_none [of v d "[]"] by (simp add: strtok_def takeWhile_all dropWhile_all)

lemma key_of_chars: "key_of k \<noteq> [] \<and> CHR ''='' \<notin> set (key_of k) \<and> LF \<notin> set (key_of k) \<and> NUL \<notin> set (key_of k)"
  by (cases k) (simp_all add: LF_def NUL_def)

lemma line_buffer:
  assumes "value_text v" "tail = [] \<or> tail = [LF]"
  shows "takeWhile (\<lambda>c. c \<noteq> LF) (cstr (key_of k @ CHR ''='' # v @ tail)) = key_of k @ CHR ''='' # v"
proof -
  have nul: "NUL \<notin> set (key_of k @ CHR ''='' # v @ tail)"
    using assms key_of_chars [of k] by (auto simp: value_text_def NUL_def LF_def)
  have lf: "LF \<notin> set (key_of k @ CHR ''='' # v)"
    using assms key_of_chars [of k] by (auto simp: value_text_def LF_def)
  have "takeWhile (\<lambda>c. c \<noteq> LF) ((key_of k @ CHR ''='' # v) @ tail) = key_of k @ CHR ''='' # v"
    using assms(2) takeWhile_upto [OF lf, of "[]"] takeWhile_all [OF lf] by auto
  then show ?thesis using nul by (simp add: cstr_id)
qed

text \<open>What one turn of the loop does with a line \<open>key=value\<close> of a recognised key.\<close>

lemma update_line_key_value:
  assumes "value_text v" "tail = [] \<or> tail = [LF]"
  shows "update_line (key_of k @ CHR ''='' # v @ tail) w =
     (if resolved k v = setting_of k (shm w) then Done w
      else if 1 \<le>s resolved k v
      then Done (report (key_of k) (resolved k v) (w\<lparr>shm := with_setting k (resolved k v) (shm w)\<rparr>))
      else Done (report (key_of k) (resolved k v) w))"
proof -
  have tok1: "strtok (CHR ''='') (key_of k @ CHR ''='' # v) = Some (key_of k, v)"
    using key_of_chars [of k] by (simp add: strtok_first)
  have tok2: "strtok (CHR ''='') v = Some (v, [])"
    using assms by (simp add: strtok_whole value_text_def)
  have sep: "CHR ''='' \<in> set (key_of k @ CHR ''='' # v)"
    by simp
  have keys:
    "(key_of k = ''backlog'') = (k = Backlog)"
    "(key_of k = ''max_clients'') = (k = Max_clients)"
    "(key_of k = ''sensor_period'') = (k = Sensor_period)"
    "(key_of k = ''samples_moving_average_filter'') = (k = Samples_moving_average_filter)"
    by (cases k; simp)+
  have "update_line (key_of k @ CHR ''='' # v @ tail) w =
     (if k = Backlog then
        (if resolved k v = backlog (shm w) then Done w
         else if 1 \<le>s resolved k v
         then Done (report (key_of k) (resolved k v) (w\<lparr>shm := (shm w)\<lparr>backlog := resolved k v\<rparr>\<rparr>))
         else Done (report (key_of k) (resolved k v) w))
      else if k = Max_clients then
        (if resolved k v = max_clients (shm w) then Done w
         else if 1 \<le>s resolved k v
         then Done (report (key_of k) (resolved k v) (w\<lparr>shm := (shm w)\<lparr>max_clients := resolved k v\<rparr>\<rparr>))
         else Done (report (key_of k) (resolved k v) w))
      else if k = Sensor_period then
        (if resolved k v = sensor_period (shm w) then Done w
         else if 1 \<le>s resolved k v
         then Done (report (key_of k) (resolved k v) (w\<lparr>shm := (shm w)\<lparr>sensor_period := resolved k v\<rparr>\<rparr>))
         else Done (report (key_of k) (resolved k v) w))
      else
        (if resolved k v = samples_moving_average_filter (shm w) then Done w
         else if 1 \<le>s resolved k v
         then Done (report (key_of k) (resolved k v)
                (w\<lparr>shm := (shm w)\<lparr>samples_moving_average_filter := resolved k v\<rparr>\<rparr>))
         else Done (report (key_of k) (resolved k v) w)))"
    unfolding update_line_def line_buffer [OF assms] Let_def
    apply (simp only: sep tok1 tok2 keys not_True_eq_False if_False option.case prod.case
        option.map_sel map_option_case fst_conv)
    apply (cases k; simp add: resolved_def)
    done
  then show ?thesis
    by (cases k) simp_all
qed

text \<open>
  \<open>fgets\<close> hands such a line to the loop body whole, with its newline when it has one,
  and the loop goes on behind it.
\<close>

lemma fgets_line:
  "LF \<notin> set l \<Longrightarrow> length l + 1 < n \<Longrightarrow> r = [] \<or> hd r = LF \<Longrightarrow>
   fgets n (l @ r) = (l @ take 1 r, tl r)"
proof (induction l arbitrary: n)
  case Nil
  then show ?case by (cases r) auto
next
  case (Cons c l)
  from Cons.prems have "fgets (n - 1) (l @ r) = (l @ take 1 r, tl r)"
    by (intro Cons.IH) auto
  with Cons.prems show ?case by auto
qed

lemma take1_tail: "r = [] \<or> hd r = LF \<Longrightarrow> take 1 r = [] \<or> take 1 r = [LF]"
  by (cases r) auto

lemma update_lines_key_value:
  assumes "value_text v" "short_line k v" "r = [] \<or> hd r = LF"
  shows "update_lines (key_of k @ CHR ''='' # v @ r) w =
     update_lines (tl r)
       (if resolved k v = setting_of k (shm w) then w
        else if 1 \<le>s resolved k v
        then report (key_of k) (resolved k v) (w\<lparr>shm := with_setting k (resolved k v) (shm w)\<rparr>)
        else report (key_of k) (resolved k v) w)"
proof -
  have lf: "LF \<notin> set (key_of k @ CHR ''='' # v)"
    using assms(1) key_of_chars [of k] by (auto simp: value_text_def LF_def)
  have "fgets 255 ((key_of k @ CHR ''='' # v) @ r) = ((key_of k @ CHR ''='' # v) @ take 1 r, tl r)"
    using assms(2,3) by (intro fgets_line [OF lf]) (auto simp: short_line_def)
  then have chunk: "fgets 255 (key_of k @ CHR ''='' # v @ r) = (key_of k @ CHR ''='' # v @ take 1 r, tl r)"
    by simp
  have read: "fst (fgets 255 (key_of k @ CHR ''='' # v @ r)) = key_of k @ CHR ''='' # v @ take 1 r"
    and left: "snd (fgets 255 (key_of k @ CHR ''='' # v @ r)) = tl r"
    by (simp_all only: chunk fst_conv snd_conv)
  have more: "(key_of k @ CHR ''='' # v @ r = []) = False"
    by simp
  show ?thesis
    apply (subst update_lines.simps)
    apply (simp only: read left more if_False
        update_line_key_value [OF assms(1) take1_tail [OF assms(3)]])
    apply simp
    done
qed


subsection \<open>Signs of the values\<close>



lemma not_positive_iff: "(x :: c_int) \<le>s 0 \<longleftrightarrow> \<not> 1 \<le>s x"
  by (auto simp: word_sle_eq)

lemma positive_nonneg: "1 \<le>s (x :: c_int) \<Longrightarrow> 0 \<le>s x"
  by (simp add: word_sle_eq)

subsection \<open>What a reload leaves alone\<close>

lemma update_line_branches:
  "update_line buffer0 w =
     (if CHR ''='' \<notin> set (takeWhile (\<lambda>c. c \<noteq> LF) (cstr buffer0)) then Done w
      else
        (case strtok (CHR ''='') (takeWhile (\<lambda>c. c \<noteq> LF) (cstr buffer0)) of
           None \<Rightarrow> Fault Null_deref w
         | Some (key, saved) \<Rightarrow>
             if key = ''backlog''
             then setting_branch Backlog key (map_option fst (strtok (CHR ''='') saved)) w
             else if key = ''max_clients''
             then setting_branch Max_clients key (map_option fst (strtok (CHR ''='') saved)) w
             else if key = ''sensor_period''
             then setting_branch Sensor_period key (map_option fst (strtok (CHR ''='') saved)) w
             else if key = ''samples_moving_average_filter''
             then setting_branch Samples_moving_average_filter key
                    (map_option fst (strtok (CHR ''='') saved)) w
             else Done (printf (Warning_unknown_key key) w)))"
  unfolding update_line_def setting_branch_def resolved_def Let_def
    setting_of.simps with_setting.simps default_of.simps
  by (rule refl)

lemma setting_branch_client_count:
  "client_count (shm (state_of (setting_branch k key val w))) = client_count (shm w)"
  by (cases k; cases val) (simp_all add: setting_branch_def report_def printf_def)

lemma setting_branch_settings:
  assumes "settings_initialised (shm w)"
  shows "settings_initialised (shm (state_of (setting_branch k key val w)))"
proof (cases val)
  case None
  with assms show ?thesis by (simp add: setting_branch_def)
next
  case (Some v)
  have "1 \<le>s resolved k v \<Longrightarrow> settings_initialised (with_setting k (resolved k v) (shm w))"
    using assms positive_nonneg [of "resolved k v"]
    by (cases k) (simp_all add: settings_initialised_def)
  with assms Some show ?thesis
    by (simp add: setting_branch_def report_def printf_def)
qed

lemma update_line_client_count:
  "client_count (shm (state_of (update_line buffer w))) = client_count (shm w)"
  unfolding update_line_branches
  by (simp add: setting_branch_client_count printf_def split: option.split prod.split)

lemma update_line_settings:
  "settings_initialised (shm w) \<Longrightarrow> settings_initialised (shm (state_of (update_line buffer w)))"
  unfolding update_line_branches
  by (simp add: setting_branch_settings printf_def split: option.split prod.split)

lemma update_lines_client_count:
  "client_count (shm (state_of (update_lines stream w))) = client_count (shm w)"
proof (induction stream w rule: update_lines.induct)
  case (1 stream w)
  show ?case
  proof (cases "stream = []")
    case True
    then show ?thesis by (simp add: update_lines.simps)
  next
    case False
    show ?thesis
    proof (cases "update_line (fst (fgets 255 stream)) w")
      case (Done w')
      then have "client_count (shm w') = client_count (shm w)"
        using update_line_client_count [of "fst (fgets 255 stream)" w] by simp
      with 1 [OF False Done] False Done show ?thesis
        by (subst update_lines.simps) simp
    next
      case (Fault f w')
      then have "client_count (shm w') = client_count (shm w)"
        using update_line_client_count [of "fst (fgets 255 stream)" w] by simp
      with False Fault show ?thesis
        by (subst update_lines.simps) simp
    qed
  qed
qed

lemma update_lines_settings:
  "settings_initialised (shm w) \<Longrightarrow> settings_initialised (shm (state_of (update_lines stream w)))"
proof (induction stream w rule: update_lines.induct)
  case (1 stream w)
  show ?case
  proof (cases "stream = []")
    case True
    with "1.prems" show ?thesis by (simp add: update_lines.simps)
  next
    case False
    show ?thesis
    proof (cases "update_line (fst (fgets 255 stream)) w")
      case (Done w')
      then have "settings_initialised (shm w')"
        using update_line_settings [OF "1.prems", of "fst (fgets 255 stream)"] by simp
      with "1.IH" [OF False Done] False Done show ?thesis
        by (subst update_lines.simps) simp
    next
      case (Fault f w')
      then have "settings_initialised (shm w')"
        using update_line_settings [OF "1.prems", of "fst (fgets 255 stream)"] by simp
      with False Fault show ?thesis
        by (subst update_lines.simps) simp
    qed
  qed
qed

lemma update_configuration_settings:
  assumes "settings_initialised (shm w)"
  shows "settings_initialised (shm (state_of (update_configuration fs config_file w)))"
proof (cases "fs config_file")
  case None
  then show ?thesis
    by (simp add: update_configuration_def printf_def settings_initialised_def
        DEFAULT_BACKLOG_def DEFAULT_MAX_CLIENTS_def DEFAULT_SENSOR_PERIOD_def
        DEFAULT_SAMPLES_MOVING_AVERAGE_FILTER_def word_sle_eq)
next
  case (Some stream)
  with update_lines_settings [OF assms, of stream] show ?thesis
    by (simp add: update_configuration_def)
qed

lemma zeroed_settings: "settings_initialised zeroed"
  by (simp add: settings_initialised_def zeroed_def word_sle_eq)

subsection \<open>The claims about the reload\<close>




text \<open>
  A resolved value of 0 or less never reaches the shared record, in any state. The
  warning is left out in one case only: the setting already holds that very value.
\<close>

lemma nonpositive_value_keeps_record:
  assumes "value_text v" "short_line k v" "r = [] \<or> hd r = LF"
    and "resolved k v \<le>s 0"
  shows "update_lines (key_of k @ CHR ''='' # v @ r) w =
     update_lines (tl r)
       (if resolved k v = setting_of k (shm w) then w
        else printf (Warning_invalid_value (key_of k)) w)"
  using assms(4) not_positive_iff [of "resolved k v"]
  by (simp add: update_lines_key_value [OF assms(1-3)] report_def)



text \<open>
  C4: when the configuration file cannot be opened, \<open>update_configuration\<close> returns
  with the four settings at their compiled-in defaults 2, 1000, 1000 and 5, whatever the
  record held before.
\<close>

theorem missing_file_gives_defaults:
  assumes "fs config_file = None"
  shows "\<exists>w'. update_configuration fs config_file w = Done w' \<and>
           backlog (shm w') = 2 \<and> max_clients (shm w') = 1000 \<and>
           sensor_period (shm w') = 1000 \<and> samples_moving_average_filter (shm w') = 5 \<and>
           backlog (shm w') = DEFAULT_BACKLOG \<and> max_clients (shm w') = DEFAULT_MAX_CLIENTS \<and>
           sensor_period (shm w') = DEFAULT_SENSOR_PERIOD \<and>
           samples_moving_average_filter (shm w') = DEFAULT_SAMPLES_MOVING_AVERAGE_FILTER"
  using assms
  by (simp add: update_configuration_def printf_def DEFAULT_BACKLOG_def DEFAULT_MAX_CLIENTS_def
      DEFAULT_SENSOR_PERIOD_def DEFAULT_SAMPLES_MOVING_AVERAGE_FILTER_def)

text \<open>C4 with no file at all.\<close>

theorem missing_file_gives_defaults_witness:
  "no_files ''config.cfg'' = None \<and>
   (\<exists>w'. update_configuration no_files ''config.cfg'' world_3 = Done w' \<and>
      backlog (shm w') = 2 \<and> max_clients (shm w') = 1000 \<and>
      sensor_period (shm w') = 1000 \<and> samples_moving_average_filter (shm w') = 5)"
proof -
  have closed: "no_files ''config.cfg'' = None"
    by (simp add: no_files_def)
  from missing_file_gives_defaults [of no_files "''config.cfg''" world_3] closed show ?thesis
    by blast
qed

text \<open>
  C10: \<open>update_configuration\<close> leaves \<open>client_count\<close> as it was, whether the file opens
  or not, and also when a line makes it fault.
\<close>

theorem reload_keeps_client_count:
  "client_count (shm (state_of (update_configuration fs config_file w))) = client_count (shm w)"
  by (cases "fs config_file")
    (simp_all add: update_configuration_def update_lines_client_count printf_def)

section \<open>Properties of the connection handler\<close>

subsection \<open>What a response does\<close>

text \<open>
  A response adds calls to the handler's list, none of them on a semaphore, and leaves the
  shared record alone.
\<close>

lemma response_send_calls:
  "\<exists>extra. calls (state_of (response_send e res buffer n w)) = calls w @ extra \<and> filter is_Sem_op extra = []
     \<and> shm (state_of (response_send e res buffer n w)) = shm w"
  by (simp add: response_send_def Let_def)

lemma response_calls:
  "\<exists>extra. calls (state_of (response e res w)) = calls w @ extra \<and> filter is_Sem_op extra = []
     \<and> shm (state_of (response e res w)) = shm w"
  unfolding response_def Let_def
  using response_send_calls by (simp split: option.split)

lemma response_no_sem:
  "filter is_Sem_op (calls (state_of (response e res w))) = filter is_Sem_op (calls w)"
  using response_calls [of e res w] by auto

lemma on_accept_turn_no_sem:
  "filter is_Sem_op (calls (state_of (on_accept_turn e req w))) = filter is_Sem_op (calls w)"
  unfolding on_accept_turn_def
  by (simp add: response_no_sem client_count_incr_def client_count_decr_def)

lemma response_shm: "shm (state_of (response e res w)) = shm w"
  using response_calls [of e res w] by auto

lemma on_accept_turn_settings:
  "settings_initialised (shm w) \<Longrightarrow>
   settings_initialised (shm (state_of (on_accept_turn e req w)))"
  unfolding on_accept_turn_def
  by (simp add: response_shm client_count_incr_def client_count_decr_def
      settings_initialised_def)

lemma on_accept_settings:
  "settings_initialised (shm w) \<Longrightarrow>
   settings_initialised (shm (state_of (on_accept e socket req w)))"
proof (induction socket arbitrary: req w)
  case Nil
  then show ?case by simp
next
  case (Cons client_msg socket)
  show ?case
  proof (cases "request e client_msg req")
    case (Fault f req')
    with Cons.prems show ?thesis by simp
  next
    case (Done req')
    show ?thesis
    proof (cases "on_accept_turn e req' w")
      case (Fault f w')
      with Done on_accept_turn_settings [OF Cons.prems, of e req'] show ?thesis by simp
    next
      case turn: (Done w')
      with on_accept_turn_settings [OF Cons.prems, of e req']
      have "settings_initialised (shm w')" by simp
      with Done turn Cons.IH [of w' req'] show ?thesis by simp
    qed
  qed
qed

text \<open>
  The two ways a file can fail in \<open>response\<close>, for any environment: a file that cannot
  be opened, and a file without a byte.
\<close>

lemma response_unopened:
  assumes "route res \<noteq> []" and "hd (route res) = CHR ''/''"
    and "files e (SERVER_ROOT @ route res) = None"
  shows "response e res w = Fault Fclose_null w"
  using assms by (simp add: response_def)

lemma response_empty_file:
  assumes "route res \<noteq> []" and "hd (route res) = CHR ''/''"
    and "files e (SERVER_ROOT @ route res) = Some []"
  shows "response e res w = response_send e not_found [] 0 w"
  using assms by (simp add: response_def)

text \<open>The discipline can be met: an increment between an acquire and a release.\<close>

lemma bracketed_example: "bracketed False [Sem_op (- 1), Client_count_incr, Sem_op 1]"
  by simp

lemma decr_exact:
  assumes "0 <s (c :: c_int)"
  shows "sint (c - 1) = sint c - 1"
proof -
  have pos: "0 < sint c"
    using assms by (simp add: word_sless_alt)
  have top: "sint c < 2 ^ 31"
    using sint_lt [of c] by simp
  have "sint (c - 1) = signed_take_bit 31 (sint c - 1)"
    by (simp add: sint_word_diff)
  also have "\<dots> = sint c - 1"
    using pos top by (intro signed_take_bit_int_eq_self) auto
  finally show ?thesis .
qed

lemma request_post_dc:
  "request demo_env ''POST /dc HTTP/1.1'' fresh_request = Done \<lparr>req_method = POST, req_route = ''/dc''\<rparr>"
  by (simp add: request_def demo_env_def strtok_def fresh_request_def)

lemma request_get_root:
  "request demo_env ''GET / HTTP/1.1'' fresh_request = Done \<lparr>req_method = GET, req_route = ''/''\<rparr>"
  by (simp add: request_def demo_env_def strtok_def fresh_request_def)

lemma get_root_calls:
  assumes "request e client_msg req = Done req'"
    and "req_method req' = GET" and "req_route req' = ''/''"
  shows "\<exists>extra. calls (state_of (on_accept e [client_msg] req w)) =
           calls w @ Client_count_incr # extra"
proof -
  let ?res = "not_found\<lparr>route := ''/index.html'', mime_type := HTML, code := OK, conn := CLOSE\<rparr>"
  have turn: "on_accept_turn e req' w = response e ?res (client_count_incr w)"
    using assms by (simp add: on_accept_turn_def)
  obtain extra where
    "calls (state_of (response e ?res (client_count_incr w))) = calls (client_count_incr w) @ extra"
    using response_calls [of e ?res "client_count_incr w"] by blast
  then have "calls (state_of (on_accept_turn e req' w)) = calls w @ Client_count_incr # extra"
    by (simp add: turn client_count_incr_def)
  moreover have "state_of (on_accept e [client_msg] req w) = state_of (on_accept_turn e req' w)"
    using assms(1) by (cases "on_accept_turn e req' w") simp_all
  ultimately show ?thesis by auto
qed

lemma show_nat_0: "show_nat 0 = ''0''"
  by (simp add: show_nat.simps digit_def)

subsection \<open>The claims about the handler\<close>

text \<open>
  C1, as the specification states it: every read-modify-write of the client counter in
  \<open>on_accept\<close> lies between an acquire and a release of the semaphore. The code does
  otherwise: serving \<open>POST /dc\<close> the handler's only call is the decrement, with no
  acquire before it and no release behind it, and serving \<open>GET /\<close> the increment comes
  with no acquire before it.
\<close>

theorem unguarded_counter_counterexample:
  "calls (state_of (on_accept demo_env [''POST /dc HTTP/1.1''] fresh_request (world_clients 2))) =
     [Client_count_decr] \<and>
   \<not> bracketed False
       (calls (state_of (on_accept demo_env [''POST /dc HTTP/1.1''] fresh_request (world_clients 2)))) \<and>
   \<not> bracketed True
       (calls (state_of (on_accept demo_env [''POST /dc HTTP/1.1''] fresh_request (world_clients 2)))) \<and>
   \<not> bracketed False
       (calls (state_of (on_accept demo_env [''GET / HTTP/1.1''] fresh_request (world_clients 2))))"
proof -
  have "calls (state_of (on_accept demo_env [''POST /dc HTTP/1.1''] fresh_request (world_clients 2))) =
      [Client_count_decr]"
    by (simp add: request_post_dc on_accept_turn_def world_clients_def client_count_decr_def
        word_sless_alt)
  moreover obtain extra where
    "calls (state_of (on_accept demo_env [''GET / HTTP/1.1''] fresh_request (world_clients 2))) =
       calls (world_clients 2) @ Client_count_incr # extra"
    using get_root_calls [OF request_get_root, of "world_clients 2"] by auto
  ultimately show ?thesis
    by (simp add: world_clients_def)
qed

text \<open>
  C1, amended: \<open>on_accept\<close> performs the increment on \<open>GET /\<close> and the decrement on
  \<open>POST /dc\<close> directly on the shared record; it makes no call on a semaphore at all,
  whatever the messages, so nothing brackets the two read-modify-writes.
\<close>

theorem handler_makes_no_semaphore_call:
  "filter is_Sem_op (calls (state_of (on_accept e socket req w))) = filter is_Sem_op (calls w)"
proof (induction socket arbitrary: req w)
  case Nil
  show ?case by simp
next
  case (Cons client_msg socket)
  show ?case
  proof (cases "request e client_msg req")
    case (Fault f req')
    then show ?thesis by simp
  next
    case (Done req')
    show ?thesis
    proof (cases "on_accept_turn e req' w")
      case (Fault f w')
      with Done on_accept_turn_no_sem [of e req' w] show ?thesis by simp
    next
      case turn: (Done w')
      with Done on_accept_turn_no_sem [of e req' w] Cons.IH [of req' w'] show ?thesis by simp
    qed
  qed
qed

text \<open>
  C8, as far as the code goes. When the file of a route cannot be opened, \<open>response\<close>
  calls \<open>fclose\<close> on the null stream and nothing is written to the socket. When the file
  is empty, the status line and the headers of the 404 response are written with a content
  length of 0 and no body, although the page of the 404 response has content.
\<close>

theorem failed_file_read_is_not_the_404_page:
  "demo_files ''web/images/404.jpg'' = None \<and>
   response demo_env \<lparr>route = ''/images/404.jpg'', mime_type = JPG, code = OK, conn = CLOSE\<rparr>
       (world_clients 2) =
     Fault Fclose_null (world_clients 2) \<and>
   demo_files ''web/images/favicon.ico'' = Some [] \<and>
   demo_files ''web/not_found.html'' = Some ''gone'' \<and>
   response demo_env
       \<lparr>route = ''/images/favicon.ico'', mime_type = FAVICON, code = OK, conn = CLOSE\<rparr>
       (world_clients 2) =
     Done ((world_clients 2)
       \<lparr>calls := [Socket_write (header demo_env not_found 0 (demo_ctime 0))]\<rparr>)"
  by (simp add: demo_env_def response_def demo_files_def SERVER_ROOT_def RESPONSE_SIZE_def
      response_send_def header_def Let_def not_found_def world_clients_def SERVER_NAME_def
      demo_ctime_def show_nat_0)

text \<open>
  C9: when the request is \<open>POST /dc\<close>, the turn returns without a response: the counter
  is one less if it was above 0 and stays 0 if it was 0, the socket writes are those made
  before, and the handler goes on with the next message of the connection.
\<close>

theorem post_dc_decrements_without_response:
  assumes "request e client_msg req = Done req'"
    and "req_method req' = POST" and "req_route req' = ''/dc''"
  shows "\<exists>w'. on_accept_turn e req' w = Done w' \<and>
           on_accept e (client_msg # socket) req w = on_accept e socket req' w' \<and>
           (0 <s client_count (shm w) \<longrightarrow>
              sint (client_count (shm w')) = sint (client_count (shm w)) - 1) \<and>
           (client_count (shm w) = 0 \<longrightarrow> client_count (shm w') = 0) \<and>
           filter is_Socket_write (calls w') = filter is_Socket_write (calls w)"
proof (cases "0 <s client_count (shm w)")
  case True
  with assms have "on_accept_turn e req' w = Done (client_count_decr w)"
    by (simp add: on_accept_turn_def)
  with assms True show ?thesis
    by (simp add: client_count_decr_def decr_exact)
next
  case False
  with assms have "on_accept_turn e req' w = Done w"
    by (simp add: on_accept_turn_def)
  with assms False show ?thesis
    by simp
qed

text \<open>C9 on the message \<open>POST /dc HTTP/1.1\<close>, with the counter at 2 and at 0.\<close>

theorem post_dc_decrements_without_response_witness:
  "request demo_env ''POST /dc HTTP/1.1'' fresh_request = Done \<lparr>req_method = POST, req_route = ''/dc''\<rparr> \<and>
   on_accept demo_env [''POST /dc HTTP/1.1''] fresh_request (world_clients 2) =
     Done ((world_clients 1)\<lparr>calls := [Client_count_decr]\<rparr>) \<and>
   on_accept demo_env [''POST /dc HTTP/1.1''] fresh_request (world_clients 0) =
     Done (world_clients 0)"
proof -
  have parsed: "request demo_env ''POST /dc HTTP/1.1'' fresh_request =
      Done \<lparr>req_method = POST, req_route = ''/dc''\<rparr>"
    by (simp add: request_def demo_env_def strtok_def fresh_request_def)
  have two: "0 <s client_count (shm (world_clients 2))"
    and none: "client_count (shm (world_clients 0)) = 0"
    by (simp_all add: world_clients_def word_sless_alt)
  from post_dc_decrements_without_response [OF parsed, of "world_clients 2" "[]"] two
  have "sint (client_count (shm (state_of (on_accept demo_env [''POST /dc HTTP/1.1''] fresh_request (world_clients 2))))) = 1"
    by (auto simp: world_clients_def)
  moreover
  from post_dc_decrements_without_response [OF parsed, of "world_clients 0" "[]"] none
  have "client_count (shm (state_of (on_accept demo_env [''POST /dc HTTP/1.1''] fresh_request (world_clients 0)))) = 0"
    by auto
  ultimately show ?thesis
    using parsed
    by (simp add: on_accept_turn_def world_clients_def client_count_decr_def word_sless_alt)
qed

section \<open>Properties of the semaphore and queue handles\<close>

subsection \<open>Looking a key up\<close>

lemma semget_attach:
  "semget key 0 {} K = (sem_of_key K key, K)"
  by (simp add: semget_def split: option.split)

lemma msgget_attach:
  "msgget key {} K = (msq_of_key K key, K)"
  by (simp add: msgget_def split: option.split)

lemma Sem_exists_iff:
  "Sem_exists path ident K \<longleftrightarrow> ftok K path ident \<noteq> - 1 \<and> sem_of_key K (ftok K path ident) \<noteq> None"
  by (simp add: Sem_exists_def semget_attach Let_def split: option.split)

lemma MsgQueue_exists_iff:
  "MsgQueue_exists path ident K \<longleftrightarrow>
     ftok K path ident \<noteq> - 1 \<and> msq_of_key K (ftok K path ident) \<noteq> None"
  by (simp add: MsgQueue_exists_def msgget_attach Let_def split: option.split)

subsection \<open>Constructors\<close>

lemma Sem_new_existing:
  assumes "Sem_exists path ident K"
  shows "Sem_new path ident True K = (Inl ''Create'', K)"
  using assms by (auto simp: Sem_exists_iff Sem_new_def semget_def Let_def)

lemma Sem_new_missing:
  assumes "\<not> Sem_exists path ident K"
  shows "Sem_new path ident False K = (Inl ''Ftok'', K) \<or> Sem_new path ident False K = (Inl ''Connect'', K)"
  using assms by (auto simp: Sem_exists_iff Sem_new_def semget_attach Let_def)

lemma Sem_new_created:
  assumes "Sem_new path ident True K = (Inr s, K')"
  shows "creator s \<and> semval K' (semid s) = Some 1 \<and> Sem_get s K' = 1 \<and> Sem_exists path ident K'"
proof -
  let ?key = "ftok K path ident"
  from assms have key: "?key \<noteq> - 1"
    by (auto simp: Sem_new_def Let_def split: if_splits)
  from assms key have fresh: "sem_of_key K ?key = None"
    by (auto simp: Sem_new_def semget_def Let_def split: option.splits if_splits)
  let ?K1 = "K\<lparr>sem_of_key := (sem_of_key K)(?key \<mapsto> next_id K),
                semval := (semval K)(next_id K \<mapsto> 0), next_id := next_id K + 1\<rparr>"
  have got: "semget ?key 1 {IPC_CREAT, IPC_EXCL} K = (Some (next_id K), ?K1)"
    using fresh by (simp add: semget_def)
  have set: "Sem_set \<lparr>semid = next_id K, creator = True\<rparr> 1 ?K1 =
      (0, ?K1\<lparr>semval := (semval ?K1)(next_id K \<mapsto> 1)\<rparr>)"
    by (simp add: Sem_set_def semctl_SETVAL_def SEMVMX_def word_sle_eq)
  from assms key got set have s: "s = \<lparr>semid = next_id K, creator = True\<rparr>"
    and K': "K' = ?K1\<lparr>semval := (semval ?K1)(next_id K \<mapsto> 1)\<rparr>"
    by (simp_all add: Sem_new_def Let_def)
  show ?thesis
    using key by (simp add: s K' Sem_get_def semctl_GETVAL_def Sem_exists_iff)
qed

lemma MsgQueue_new_existing:
  assumes "MsgQueue_exists path ident K"
  shows "MsgQueue_new path ident True tid K = (Inl ''msgget'', K)"
  using assms by (auto simp: MsgQueue_exists_iff MsgQueue_new_def msgget_def Let_def)

lemma MsgQueue_new_missing:
  assumes "\<not> MsgQueue_exists path ident K"
  shows "MsgQueue_new path ident False tid K = (Inl ''ftok'', K) \<or>
         MsgQueue_new path ident False tid K = (Inl ''msgget'', K)"
  using assms by (auto simp: MsgQueue_exists_iff MsgQueue_new_def msgget_attach Let_def)

lemma created_sem:
  "Sem_new ''.'' 123 True empty_kernel = (Inr \<lparr>semid = 0, creator = True\<rparr>, kernel_with_sem)"
  by (simp add: kernel_with_sem_def Sem_new_def empty_kernel_def demo_ftok_def semget_def
      Sem_set_def semctl_SETVAL_def SEMVMX_def word_sle_eq Let_def)

lemma created_msq:
  "MsgQueue_new ''.'' 123 True 100 empty_kernel =
     (Inr \<lparr>msg_id = 0, msq_creator = True, pid = 100\<rparr>, kernel_with_msq)"
  by (simp add: kernel_with_msq_def MsgQueue_new_def empty_kernel_def demo_ftok_def msgget_def
      Let_def)

lemma demo_exists:
  "\<not> Sem_exists ''.'' 123 empty_kernel" "Sem_exists ''.'' 123 kernel_with_sem"
  "\<not> MsgQueue_exists ''.'' 123 empty_kernel" "MsgQueue_exists ''.'' 123 kernel_with_msq"
  by (simp_all add: Sem_exists_iff MsgQueue_exists_iff kernel_with_sem_def kernel_with_msq_def
      Sem_new_def MsgQueue_new_def empty_kernel_def demo_ftok_def semget_def msgget_def
      Sem_set_def semctl_SETVAL_def SEMVMX_def word_sle_eq Let_def)

subsection \<open>Destructors\<close>

lemma Sem_destroy_other:
  "\<not> creator s \<Longrightarrow> Sem_destroy s tid K = K"
  by (simp add: Sem_destroy_def)

lemma MsgQueue_destroy_other:
  "\<not> msq_creator q \<or> pid q \<noteq> tid \<Longrightarrow> MsgQueue_destroy q tid K = K"
  by (auto simp: MsgQueue_destroy_def)

lemma Sem_destroy_any_thread:
  "creator s \<Longrightarrow> Sem_destroy s tid K = Sem_destroy s tid' K"
  by (simp add: Sem_destroy_def)

lemma Sem_destroy_creator:
  "creator s \<Longrightarrow> sem_of_key K (ftok K path ident) = Some (semid s) \<Longrightarrow>
   \<not> Sem_exists path ident (Sem_destroy s tid K)"
  by (simp add: Sem_destroy_def Sem_exists_iff semctl_IPC_RMID_def)

subsection \<open>Operations on the value\<close>

text \<open>
  An argument of \<open>Sem::op\<close> between -32768 and 32767 reaches \<open>semop\<close> as it is. Then
  the operation does what its comment in sem.cpp says: 0 goes through only at the value
  0, a negative argument goes through only when the value covers it and leaves the
  difference, and a positive one is added.
\<close>

lemma narrow_in_range:
  assumes "- 32768 \<le> sint (op :: c_int)" "sint op \<le> 32767"
  shows "sint (scast op :: c_short) = sint op"
proof -
  have "sint (scast op :: c_short) = signed_take_bit 15 (sint op)"
    by (simp add: signed_scast_eq)
  also have "\<dots> = sint op"
    using assms by (intro signed_take_bit_int_eq_self) auto
  finally show ?thesis .
qed

lemma Sem_apply_zero:
  assumes "semval K (semid s) = Some v"
  shows "Sem_apply s 0 K = (if v = 0 then Returns 0 K else Blocks)"
  using assms by (simp add: Sem_apply_def semop_def)

lemma Sem_apply_zero_returns:
  assumes "Sem_apply s 0 K = Returns 0 K'"
  shows "semval K (semid s) = Some 0 \<and> K' = K"
  using assms
  by (auto simp: Sem_apply_def semop_def split: option.splits if_splits)

lemma Sem_apply_negative:
  assumes "semval K (semid s) = Some v"
    and "sint op < 0" and "- 32768 \<le> sint op"
  shows "Sem_apply s op K =
     (if nat (- sint op) \<le> v
      then Returns 0 (K\<lparr>semval := (semval K)(semid s \<mapsto> v - nat (- sint op))\<rparr>)
      else Blocks)"
proof -
  have same: "sint (scast op :: c_short) = sint op"
    using assms(2,3) by (intro narrow_in_range) auto
  have "\<not> 0 <s (scast op :: c_short)" and "(scast op :: c_short) \<noteq> 0"
    using assms(2) same by (auto simp: word_sless_alt)
  then show ?thesis
    using assms(1) by (simp add: Sem_apply_def semop_def same)
qed

lemma Sem_apply_positive:
  assumes "semval K (semid s) = Some v"
    and "0 < sint op" and "sint op \<le> 32767"
  shows "Sem_apply s op K =
     (if 32767 < v + nat (sint op) then Returns (- 1) K
      else Returns 0 (K\<lparr>semval := (semval K)(semid s \<mapsto> v + nat (sint op))\<rparr>))"
proof -
  have same: "sint (scast op :: c_short) = sint op"
    using assms(2,3) by (intro narrow_in_range) auto
  have "0 <s (scast op :: c_short)"
    using assms(2) same by (simp add: word_sless_alt)
  then show ?thesis
    using assms(1) by (simp add: Sem_apply_def semop_def same SEMVMX_def)
qed

text \<open>
  Whatever the arguments, the value stays between 0 and \<open>SEMVMX\<close> along every sequence
  of operations.
\<close>

lemma semop_in_range:
  assumes "semval K sid = Some v" "v \<le> 32767" "semop sid sop K = Returns r K'"
  shows "\<exists>v'. semval K' sid = Some v' \<and> v' \<le> 32767"
  using assms
  by (auto simp: semop_def SEMVMX_def split: if_splits)

lemma Sem_apply_in_range:
  assumes "semval_in_range s K" "Sem_apply s op K = Returns r K'"
  shows "semval_in_range s K'"
proof -
  from assms(1) obtain v where v: "semval K (semid s) = Some v" "v \<le> 32767"
    by (auto simp: semval_in_range_def split: option.splits)
  from assms(2) obtain r' where
    "semop (semid s) \<lparr>sem_num = 0, sem_op = scast op, sem_flg = {}\<rparr> K = Returns r' K'"
    by (auto simp: Sem_apply_def split: syscall.splits)
  from semop_in_range [OF v this] show ?thesis
    by (auto simp: semval_in_range_def)
qed

lemma Sem_applies_in_range:
  "semval_in_range s K \<Longrightarrow> semval_in_range s (Sem_applies s ops K)"
proof (induction ops arbitrary: K)
  case Nil
  then show ?case by simp
next
  case (Cons op ops)
  show ?case
  proof (cases "Sem_apply s op K")
    case (Returns r K')
    with Cons.prems have "semval_in_range s K'"
      by (auto intro: Sem_apply_in_range)
    with Returns Cons.IH [of K'] show ?thesis by simp
  next
    case Blocks
    with Cons.prems Cons.IH [of K] show ?thesis by simp
  qed
qed

lemma kernel_with_sem_value: "semval kernel_with_sem 0 = Some 1"
  by (simp add: kernel_with_sem_def Sem_new_def empty_kernel_def demo_ftok_def semget_def
      Sem_set_def semctl_SETVAL_def SEMVMX_def word_sle_eq Let_def)

subsection \<open>The claims about the handles\<close>

text \<open>
  C5, as far as the code goes. The destructor of a message queue removes the queue only
  for the creator and only in the thread that created it. The destructor of a semaphore
  asks only whether the handle is the creator: run in another thread or in the copy a
  duplicated process holds, it removes the semaphore all the same.
\<close>

theorem sem_copy_removes_semaphore:
  "Sem_new ''.'' 123 True empty_kernel = (Inr \<lparr>semid = 0, creator = True\<rparr>, kernel_with_sem) \<and>
   Sem_exists ''.'' 123 kernel_with_sem \<and>
   \<not> Sem_exists ''.'' 123 (Sem_destroy \<lparr>semid = 0, creator = True\<rparr> 200 kernel_with_sem) \<and>
   MsgQueue_new ''.'' 123 True 100 empty_kernel =
     (Inr \<lparr>msg_id = 0, msq_creator = True, pid = 100\<rparr>, kernel_with_msq) \<and>
   MsgQueue_exists ''.'' 123
     (MsgQueue_destroy \<lparr>msg_id = 0, msq_creator = True, pid = 100\<rparr> 200 kernel_with_msq) \<and>
   \<not> MsgQueue_exists ''.'' 123
     (MsgQueue_destroy \<lparr>msg_id = 0, msq_creator = True, pid = 100\<rparr> 100 kernel_with_msq)"
proof -
  have "\<not> Sem_exists ''.'' 123 (Sem_destroy \<lparr>semid = 0, creator = True\<rparr> 200 kernel_with_sem)"
    by (simp add: Sem_destroy_def Sem_exists_iff semctl_IPC_RMID_def kernel_with_sem_def
        Sem_new_def empty_kernel_def demo_ftok_def semget_def Sem_set_def semctl_SETVAL_def
        SEMVMX_def word_sle_eq Let_def)
  moreover have "\<not> MsgQueue_exists ''.'' 123
     (MsgQueue_destroy \<lparr>msg_id = 0, msq_creator = True, pid = 100\<rparr> 100 kernel_with_msq)"
    by (simp add: MsgQueue_destroy_def MsgQueue_exists_iff msgctl_IPC_RMID_def
        kernel_with_msq_def MsgQueue_new_def empty_kernel_def demo_ftok_def msgget_def Let_def)
  ultimately show ?thesis
    using created_sem created_msq demo_exists
    by (simp add: MsgQueue_destroy_def)
qed

text \<open>
  C6, as far as the code goes. The value never goes below 0 (\<open>Sem_applies_in_range\<close>)
  and \<open>op(0)\<close> returns 0 only at the value 0 (\<open>Sem_apply_zero_returns\<close>). But
  \<open>op(-k)\<close> with \<open>k\<close> above the value does not always block: \<open>Sem::op\<close> stores its
  \<open>int\<close> argument in a \<open>short\<close>, so on a semaphore at 1 the call \<open>op(-40000)\<close> hands
  25536 to \<open>semop\<close>, which adds it and returns at once, where \<open>op(-2)\<close> blocks.
\<close>

theorem sem_op_narrows_its_argument:
  "Sem_apply \<lparr>semid = 0, creator = True\<rparr> (- 40000) kernel_with_sem =
     Returns 0 (kernel_with_sem\<lparr>semval := (semval kernel_with_sem)(0 \<mapsto> 25537)\<rparr>) \<and>
   Sem_apply \<lparr>semid = 0, creator = True\<rparr> (- 2) kernel_with_sem = Blocks"
  by (simp add: Sem_apply_def semop_def kernel_with_sem_value SEMVMX_def word_sless_alt)

text \<open>
  C7: creating a semaphore or a message queue for a key that has one already throws and
  leaves the kernel as it was; attaching when there is none throws as well; and a
  semaphore that has been created has the value 1.
\<close>

theorem strict_create_and_attach:
  "(Sem_exists path ident K \<longrightarrow> Sem_new path ident True K = (Inl ''Create'', K)) \<and>
   (\<not> Sem_exists path ident K \<longrightarrow>
      isl (fst (Sem_new path ident False K)) \<and> snd (Sem_new path ident False K) = K) \<and>
   (Sem_new path ident True K = (Inr s, K') \<longrightarrow>
      semval K' (semid s) = Some 1 \<and> Sem_get s K' = 1) \<and>
   (MsgQueue_exists path ident K \<longrightarrow>
      MsgQueue_new path ident True tid K = (Inl ''msgget'', K)) \<and>
   (\<not> MsgQueue_exists path ident K \<longrightarrow>
      isl (fst (MsgQueue_new path ident False tid K)) \<and>
      snd (MsgQueue_new path ident False tid K) = K)"
  using Sem_new_existing [of path ident K] Sem_new_missing [of path ident K]
    Sem_new_created [of path ident K s K'] MsgQueue_new_existing [of path ident K tid]
    MsgQueue_new_missing [of path ident K tid]
  by auto

text \<open>C7 on the key of \<open>(".", 123)\<close>, before and after the object is created.\<close>

theorem strict_create_and_attach_witness:
  "Sem_exists ''.'' 123 kernel_with_sem \<and>
   Sem_new ''.'' 123 True kernel_with_sem = (Inl ''Create'', kernel_with_sem) \<and>
   \<not> Sem_exists ''.'' 123 empty_kernel \<and>
   isl (fst (Sem_new ''.'' 123 False empty_kernel)) \<and>
   Sem_new ''.'' 123 True empty_kernel = (Inr \<lparr>semid = 0, creator = True\<rparr>, kernel_with_sem) \<and>
   Sem_get \<lparr>semid = 0, creator = True\<rparr> kernel_with_sem = 1 \<and>
   MsgQueue_exists ''.'' 123 kernel_with_msq \<and>
   MsgQueue_new ''.'' 123 True 100 kernel_with_msq = (Inl ''msgget'', kernel_with_msq) \<and>
   \<not> MsgQueue_exists ''.'' 123 empty_kernel \<and>
   isl (fst (MsgQueue_new ''.'' 123 False 100 empty_kernel))"
  using strict_create_and_attach [of "''.''" 123 kernel_with_sem "\<lparr>semid = 0, creator = True\<rparr>"
      kernel_with_sem 100]
    strict_create_and_attach [of "''.''" 123 empty_kernel "\<lparr>semid = 0, creator = True\<rparr>"
      kernel_with_sem 100]
    strict_create_and_attach [of "''.''" 123 kernel_with_msq "\<lparr>semid = 0, creator = True\<rparr>"
      kernel_with_sem 100]
    created_sem demo_exists
  by simp

end
